theory Spec2Isabelle
  imports Complex_Main "HOL-Library.Word"
begin

section \<open>The Hedera node: data model\<close>

text \<open>
  The node (\<^verbatim>\<open>nodes/Hedera/Hedera.node.ts\<close>) reads its parameters per input item, calls
  the Hedera SDK and maps the outcome to one result record per item. The SDK
  (\<^verbatim>\<open>@hashgraph/sdk\<close>), the workflow platform (\<^verbatim>\<open>n8n-workflow\<close>) and the runtime's
  \<^verbatim>\<open>Buffer\<close> are not part of the repository. Their pure value operations that the
  properties below depend on are modelled and marked as such; everything that talks to the
  network or parses SDK formats is a parameter of the model (the record \<open>sdk\<close> below).
\<close>

type_synonym byte = "8 word"

text \<open>
  Errors as values. \<open>NodeOperationError\<close> and \<open>NodeApiError\<close> are the two platform errors
  the source throws itself; \<open>SdkError\<close> stands for any error thrown inside an SDK or
  runtime call. \<open>NodeApiError\<close> wraps the error caught by the loop.
\<close>

datatype error =
    NodeOperationError string
  | SdkError string
  | NodeApiError error

text \<open>\<^verbatim>\<open>(err as Error).message\<close> of an error caught by the loop.\<close>

fun message :: "error \<Rightarrow> string" where
  "message (NodeOperationError m) = m"
| "message (SdkError m) = m"
| "message (NodeApiError e) = message e"

subsection \<open>Amounts\<close>

text \<open>
  Modelled from the spec: the SDK's \<^verbatim>\<open>Hbar\<close> class is not in the repository. The spec's
  data model describes an amount as an integer number of minor units (tinybars,
  \<open>10\<^sup>-\<^sup>8\<close> of the major unit), "constructed from a decimal major-unit value by scaling
  with a fixed exponent (8 decimal places) and rounding rule: reject if precision exceeds 8
  decimals". The JavaScript number passed to the constructor is taken as the rational it
  denotes. \<open>negated\<close> is the amount with the opposite sign.
\<close>

datatype Hbar = Hbar (toTinybars: int)

definition Hbar_new :: "rat \<Rightarrow> error + Hbar" where
  "Hbar_new amount =
     (let t = amount * 100000000 in
      if of_int \<lfloor>t\<rfloor> = t then Inr (Hbar \<lfloor>t\<rfloor>)
      else Inl (SdkError ''Hbar in tinybars contains decimals''))"

definition negated :: "Hbar \<Rightarrow> Hbar" where
  "negated h = Hbar (- toTinybars h)"

subsection \<open>Accounts and the transfer list\<close>

text \<open>
  Modelled from the spec: an account identity is a "shard.realm.number triple", three
  non-negative integers. How the SDK reads one from a string is a parameter of the model
  (\<open>AccountId_fromString\<close> below).
\<close>

datatype AccountId = AccountId nat nat nat

text \<open>
  Modelled from the spec: \<^verbatim>\<open>TransferTransaction\<close> carries the transfer list, one signed
  amount per party ("the sum of signed amounts across all parties"). Adding an amount for
  an account that is already in the list adds it to that account's entry; a new account
  gets a new entry at the end.
\<close>

datatype TransferTransaction = TransferTransaction (hbarTransfers: "(AccountId \<times> Hbar) list")

fun add_transfer :: "AccountId \<Rightarrow> Hbar \<Rightarrow> (AccountId \<times> Hbar) list \<Rightarrow> (AccountId \<times> Hbar) list" where
  "add_transfer a h [] = [(a, h)]"
| "add_transfer a h ((b, g) # ts) =
     (if b = a then (b, Hbar (toTinybars g + toTinybars h)) # ts
      else (b, g) # add_transfer a h ts)"

text \<open>The sum of the signed amounts of a transfer list, in tinybars.\<close>

definition transfer_sum :: "TransferTransaction \<Rightarrow> int" where
  "transfer_sum tx = sum_list (map (\<lambda>p. toTinybars (snd p)) (hbarTransfers tx))"

subsection \<open>JavaScript values\<close>

text \<open>
  The \<^verbatim>\<open>transactionBuffer\<close> parameter is of type \<^verbatim>\<open>any\<close>: a JSON-like value.
  Numbers are integers here (the byte arrays the parameter is meant for hold integers).
\<close>

datatype jsval =
    JUndefined
  | JNull
  | JBool bool
  | JNum int
  | JStr string
  | JArr "jsval list"
  | JObj "(string \<times> jsval) list"

text \<open>JavaScript truthiness, as \<^verbatim>\<open>if (v)\<close> tests it.\<close>

fun truthy :: "jsval \<Rightarrow> bool" where
  "truthy JUndefined = False"
| "truthy JNull = False"
| "truthy (JBool b) = b"
| "truthy (JNum n) = (n \<noteq> 0)"
| "truthy (JStr s) = (s \<noteq> [])"
| "truthy (JArr xs) = True"
| "truthy (JObj kvs) = True"

text \<open>
  \<^verbatim>\<open>v?.key\<close> for a key that is not an index or a built-in property: the member of an
  object, and \<^verbatim>\<open>undefined\<close> on everything else (also on \<^verbatim>\<open>null\<close> and
  \<^verbatim>\<open>undefined\<close>, by the optional chaining).
\<close>

fun get_prop :: "jsval \<Rightarrow> string \<Rightarrow> jsval" where
  "get_prop (JObj kvs) key = (case map_of kvs key of Some v \<Rightarrow> v | None \<Rightarrow> JUndefined)"
| "get_prop _ key = JUndefined"

fun isArray :: "jsval \<Rightarrow> bool" where
  "isArray (JArr xs) = True"
| "isArray _ = False"

subsection \<open>Buffers: base64 and hex\<close>

text \<open>
  Modelled from the spec: the runtime's \<^verbatim>\<open>Buffer\<close> is not in the repository. The spec
  names the two representations, "a base64 string" and a "byte array wrapped in an
  object"; base64 is the standard alphabet with \<open>=\<close> padding. The decoder is the
  runtime's lenient one: it never fails, stops at the first \<open>=\<close>, skips every character
  outside the alphabet, and also reads the URL-safe \<open>-\<close> and \<open>_\<close>.
\<close>

definition b64_alphabet :: string where
  "b64_alphabet = ''ABCDEFGHIJKLMNOPQRSTUVWXYZabcdefghijklmnopqrstuvwxyz0123456789+/''"

definition b64_char :: "nat \<Rightarrow> char" where
  "b64_char i = b64_alphabet ! (i mod 64)"

fun index_of :: "'a \<Rightarrow> 'a list \<Rightarrow> nat option" where
  "index_of x [] = None"
| "index_of x (y # ys) = (if x = y then Some 0 else map_option Suc (index_of x ys))"

definition b64_value :: "char \<Rightarrow> nat option" where
  "b64_value c =
     (if c = CHR ''-'' then Some 62
      else if c = CHR ''_'' then Some 63
      else index_of c b64_alphabet)"

text \<open>\<^verbatim>\<open>buf.toString('base64')\<close>: three bytes give four characters, the rest is padded.\<close>

fun toString_base64 :: "byte list \<Rightarrow> string" where
  "toString_base64 [] = []"
| "toString_base64 [a] =
     [b64_char (unat a div 4), b64_char (unat a mod 4 * 16), CHR ''='', CHR ''='']"
| "toString_base64 [a, b] =
     [b64_char (unat a div 4), b64_char (unat a mod 4 * 16 + unat b div 16),
      b64_char (unat b mod 16 * 4), CHR ''='']"
| "toString_base64 (a # b # c # bs) =
     [b64_char (unat a div 4), b64_char (unat a mod 4 * 16 + unat b div 16),
      b64_char (unat b mod 16 * 4 + unat c div 64), b64_char (unat c mod 64)]
     @ toString_base64 bs"

text \<open>\<^verbatim>\<open>Buffer.from(s, 'base64')\<close>: four sextets give three bytes.\<close>

fun sextets_bytes :: "nat list \<Rightarrow> byte list" where
  "sextets_bytes (s1 # s2 # s3 # s4 # ss) =
     [of_nat (s1 * 4 + s2 div 16), of_nat (s2 mod 16 * 16 + s3 div 4),
      of_nat (s3 mod 4 * 64 + s4)] @ sextets_bytes ss"
| "sextets_bytes [s1, s2, s3] =
     [of_nat (s1 * 4 + s2 div 16), of_nat (s2 mod 16 * 16 + s3 div 4)]"
| "sextets_bytes [s1, s2] = [of_nat (s1 * 4 + s2 div 16)]"
| "sextets_bytes _ = []"

definition Buffer_from_base64 :: "string \<Rightarrow> byte list" where
  "Buffer_from_base64 s =
     sextets_bytes (List.map_filter b64_value (takeWhile (\<lambda>c. c \<noteq> CHR ''='') s))"

text \<open>\<^verbatim>\<open>buf.toString('hex')\<close>: two lower-case digits per byte.\<close>

definition hex_digit :: "nat \<Rightarrow> char" where
  "hex_digit i = ''0123456789abcdef'' ! (i mod 16)"

definition toString_hex :: "byte list \<Rightarrow> string" where
  "toString_hex bs = concat (map (\<lambda>b. [hex_digit (unat b div 16), hex_digit (unat b mod 16)]) bs)"

text \<open>The sextets the encoder writes, before they become characters.\<close>

fun sextets_of :: "byte list \<Rightarrow> nat list" where
  "sextets_of [] = []"
| "sextets_of [a] = [unat a div 4, unat a mod 4 * 16]"
| "sextets_of [a, b] = [unat a div 4, unat a mod 4 * 16 + unat b div 16, unat b mod 16 * 4]"
| "sextets_of (a # b # c # bs) =
     [unat a div 4, unat a mod 4 * 16 + unat b div 16,
      unat b mod 16 * 4 + unat c div 64, unat c mod 64] @ sextets_of bs"

subsection \<open>Requests\<close>

text \<open>
  The node parameters of one input item, as \<^verbatim>\<open>this.getNodeParameter(name, i)\<close> returns
  them; the platform resolves each parameter (with its declared default), so a request
  carries all of them. The two numeric parameters are the rationals they denote.
\<close>

record request =
  resource :: string
  accountOperation :: string
  initialBalance :: rat
  recipientId :: string
  amount :: rat
  transactionOperation :: string
  transactionFormat :: string
  transaction :: string
  transactionBuffer :: jsval

section \<open>The SDK as a parameter\<close>

text \<open>
  Keys, responses and receipts are the values the source reads from them: the string
  forms of keys and identifiers, the hash bytes, the status name.
\<close>

datatype PrivateKey = PrivateKey string
datatype PublicKey = PublicKey string

fun PrivateKey_toString :: "PrivateKey \<Rightarrow> string" where
  "PrivateKey_toString (PrivateKey s) = s"

fun PublicKey_toString :: "PublicKey \<Rightarrow> string" where
  "PublicKey_toString (PublicKey s) = s"

record TransactionResponse =
  transactionId :: string
  nodeId :: "string option"
  transactionHash :: "byte list"

record TransactionReceipt =
  receiptStatus :: string
  receiptAccountId :: "string option"

datatype LedgerId = Mainnet | Testnet | Previewnet

record Client =
  ledgerId :: LedgerId
  operator :: "(string \<times> string) option"

definition Client_forMainnet :: Client where
  "Client_forMainnet = \<lparr>ledgerId = Mainnet, operator = None\<rparr>"

definition Client_forTestnet :: Client where
  "Client_forTestnet = \<lparr>ledgerId = Testnet, operator = None\<rparr>"

definition Client_forPreviewnet :: Client where
  "Client_forPreviewnet = \<lparr>ledgerId = Previewnet, operator = None\<rparr>"

text \<open>
  What the node calls in the SDK and cannot be read from the repository. \<open>'w\<close> is the
  state of the world outside the node (the ledger and the source of randomness), \<open>'t\<close>
  the SDK's transaction objects. Only the calls that take a \<open>'w\<close> can reach the network
  (the three \<open>execute\<close> calls and \<open>getReceipt\<close>) or draw randomness
  (\<open>generateED25519\<close>). A call that throws returns \<open>Inl\<close>. \<open>operator_error\<close> is
  what \<^verbatim>\<open>client.setOperator\<close> throws for an account and a key, if anything.
  \<open>AccountId_fromString\<close> reads an account identifier. The last two fields are the
  runtime's \<^verbatim>\<open>Buffer.from(v)\<close> for a value \<open>v\<close> that is not an array, and the byte an
  array element that is not a number converts to.
\<close>

record ('w, 't) sdk =
  operator_error :: "string \<Rightarrow> string \<Rightarrow> error option"
  generateED25519 :: "'w \<Rightarrow> PrivateKey \<times> 'w"
  publicKey :: "PrivateKey \<Rightarrow> PublicKey"
  AccountCreate_execute :: "Client \<Rightarrow> PublicKey \<Rightarrow> Hbar \<Rightarrow> 'w \<Rightarrow> (error + TransactionResponse) \<times> 'w"
  Transfer_execute :: "Client \<Rightarrow> TransferTransaction \<Rightarrow> 'w \<Rightarrow> (error + TransactionResponse) \<times> 'w"
  getReceipt :: "Client \<Rightarrow> TransactionResponse \<Rightarrow> 'w \<Rightarrow> (error + TransactionReceipt) \<times> 'w"
  Transaction_fromBytes :: "byte list \<Rightarrow> error + 't"
  PrivateKey_fromString :: "string \<Rightarrow> error + PrivateKey"
  Transaction_sign :: "'t \<Rightarrow> PrivateKey \<Rightarrow> error + 't"
  Transaction_execute :: "Client \<Rightarrow> 't \<Rightarrow> 'w \<Rightarrow> (error + TransactionResponse) \<times> 'w"
  Transaction_toBytes :: "'t \<Rightarrow> byte list"
  AccountId_fromString :: "string \<Rightarrow> error + AccountId"
  Buffer_from_other :: "jsval \<Rightarrow> error + byte list"
  ToUint8_other :: "jsval \<Rightarrow> byte"

section \<open>The node's logic\<close>

text \<open>
  \<^verbatim>\<open>Buffer.from(data)\<close> for the \<^verbatim>\<open>data: number[]\<close> the source declares: every
  number is reduced modulo 256. What the runtime does with other elements and with other
  values than arrays is the parameter's.
\<close>

fun ToUint8 :: "('w, 't) sdk \<Rightarrow> jsval \<Rightarrow> byte" where
  "ToUint8 sdk (JNum n) = of_int n"
| "ToUint8 sdk v = ToUint8_other sdk v"

fun Buffer_from :: "('w, 't) sdk \<Rightarrow> jsval \<Rightarrow> error + byte list" where
  "Buffer_from sdk (JArr xs) = Inr (map (ToUint8 sdk) xs)"
| "Buffer_from sdk v = Buffer_from_other sdk v"

text \<open>The helper \<^verbatim>\<open>getTransactionBytes\<close> of the source (lines 281--304).\<close>

definition getTransactionBytes :: "('w, 't) sdk \<Rightarrow> request \<Rightarrow> error + byte list" where
  "getTransactionBytes sdk req =
     (if transactionFormat req = ''base64'' then
        Inr (Buffer_from_base64 (transaction req))
      else
        let bufferObj = transactionBuffer req in
        if truthy (get_prop bufferObj ''data'') then Buffer_from sdk (get_prop bufferObj ''data'')
        else if truthy (get_prop (get_prop bufferObj ''transBytes'') ''data'') then
          Buffer_from sdk (get_prop (get_prop bufferObj ''transBytes'') ''data'')
        else if truthy (get_prop (get_prop bufferObj ''transBase64'') ''data'') then
          Buffer_from sdk (get_prop (get_prop bufferObj ''transBase64'') ''data'')
        else if isArray bufferObj then Buffer_from sdk bufferObj
        else Inl (NodeOperationError
          ''Invalid buffer object format. Expected object with data array or direct array.''))"

text \<open>
  The object a JSON serializer emits for a buffer: \<^verbatim>\<open>{type: 'Buffer', data: [...]}\<close>.
\<close>

definition buffer_object :: "byte list \<Rightarrow> jsval" where
  "buffer_object bs = JObj [(''type'', JStr ''Buffer''), (''data'', JArr (map (\<lambda>b. JNum (uint b)) bs))]"

text \<open>
  \<^verbatim>\<open>tx.addHbarTransfer(accountId, amount)\<close> with the identifier as a string: the
  identifier is read first, and a string that is no identifier throws. In the source the
  sender is the operator's \<^verbatim>\<open>accountId\<close>, the recipient the parameter
  \<^verbatim>\<open>recipientId\<close>.
\<close>

definition addHbarTransfer ::
  "('w, 't) sdk \<Rightarrow> string \<Rightarrow> Hbar \<Rightarrow> TransferTransaction \<Rightarrow> error + TransferTransaction" where
  "addHbarTransfer sdk ident hbar tx =
     (case AccountId_fromString sdk ident of
        Inl e \<Rightarrow> Inl e
      | Inr a \<Rightarrow> Inr (TransferTransaction (add_transfer a hbar (hbarTransfers tx))))"

text \<open>
  Lines 257--259 of the source:
  \<^verbatim>\<open>new TransferTransaction().addHbarTransfer(accountId, hbarAmount.negated())
      .addHbarTransfer(recipientId, hbarAmount)\<close>
\<close>

definition buildTransferTransaction ::
  "('w, 't) sdk \<Rightarrow> string \<Rightarrow> string \<Rightarrow> Hbar \<Rightarrow> error + TransferTransaction" where
  "buildTransferTransaction sdk sender recipient hbarAmount =
     (case addHbarTransfer sdk sender (negated hbarAmount) (TransferTransaction []) of
        Inl e \<Rightarrow> Inl e
      | Inr tx \<Rightarrow> addHbarTransfer sdk recipient hbarAmount tx)"

text \<open>
  A result is the \<^verbatim>\<open>IDataObject\<close> of one item: its fields in the order the source
  writes them. All values the node writes are strings.
\<close>

type_synonym IDataObject = "(string \<times> string) list"

record INodeExecutionData =
  json :: IDataObject

text \<open>\<^verbatim>\<open>s || ''\<close> for an optional string.\<close>

fun or_empty :: "string option \<Rightarrow> string" where
  "or_empty None = []"
| "or_empty (Some s) = s"

text \<open>The branch \<^verbatim>\<open>operation === 'create'\<close> (lines 228--249).\<close>

definition account_create ::
  "('w, 't) sdk \<Rightarrow> Client \<Rightarrow> request \<Rightarrow> 'w \<Rightarrow> (error + IDataObject) \<times> 'w" where
  "account_create sdk client req w =
     (case generateED25519 sdk w of (newPrivateKey, w1) \<Rightarrow>
      let newPublicKey = publicKey sdk newPrivateKey in
      case Hbar_new (initialBalance req) of
        Inl e \<Rightarrow> (Inl e, w1)
      | Inr balance \<Rightarrow>
          (case AccountCreate_execute sdk client newPublicKey balance w1 of
             (Inl e, w2) \<Rightarrow> (Inl e, w2)
           | (Inr txId, w2) \<Rightarrow>
               (case getReceipt sdk client txId w2 of
                  (Inl e, w3) \<Rightarrow> (Inl e, w3)
                | (Inr receipt, w3) \<Rightarrow>
                    (case receiptAccountId receipt of
                       None \<Rightarrow>
                         (Inl (NodeOperationError
                            (''Account creation failed: '' @ receiptStatus receipt)), w3)
                     | Some newAccountId \<Rightarrow>
                         (Inr [(''newAccountId'', newAccountId),
                               (''newAccountPublicKey'', PublicKey_toString newPublicKey),
                               (''newAccountPrivateKey'', PrivateKey_toString newPrivateKey)],
                          w3)))))"

text \<open>The branch \<^verbatim>\<open>operation === 'transfer'\<close> (lines 252--268).\<close>

definition account_transfer ::
  "('w, 't) sdk \<Rightarrow> Client \<Rightarrow> string \<Rightarrow> request \<Rightarrow> 'w \<Rightarrow> (error + IDataObject) \<times> 'w" where
  "account_transfer sdk client acct req w =
     (case Hbar_new (amount req) of
        Inl e \<Rightarrow> (Inl e, w)
      | Inr hbarAmount \<Rightarrow>
          (case buildTransferTransaction sdk acct (recipientId req) hbarAmount of
             Inl e \<Rightarrow> (Inl e, w)
           | Inr tx \<Rightarrow>
               (case Transfer_execute sdk client tx w of
                  (Inl e, w1) \<Rightarrow> (Inl e, w1)
                | (Inr txResponse, w1) \<Rightarrow>
                    (case getReceipt sdk client txResponse w1 of
                       (Inl e, w2) \<Rightarrow> (Inl e, w2)
                     | (Inr receipt, w2) \<Rightarrow>
                         (Inr [(''status'', receiptStatus receipt),
                               (''transactionId'', transactionId txResponse)], w2)))))"

text \<open>The fields both submitting operations report (lines 325--330 and 344--348).\<close>

definition submission_fields :: "TransactionResponse \<Rightarrow> TransactionReceipt \<Rightarrow> IDataObject" where
  "submission_fields txResponse receipt =
     [(''transactionId'', transactionId txResponse),
      (''nodeId'', or_empty (nodeId txResponse)),
      (''transactionHash'', toString_hex (transactionHash txResponse)),
      (''status'', receiptStatus receipt)]"

text \<open>The branch \<^verbatim>\<open>operation === 'sign'\<close> (lines 306--314).\<close>

definition transaction_sign ::
  "('w, 't) sdk \<Rightarrow> string \<Rightarrow> request \<Rightarrow> 'w \<Rightarrow> (error + IDataObject) \<times> 'w" where
  "transaction_sign sdk privKeyStr req w =
     (case getTransactionBytes sdk req of
        Inl e \<Rightarrow> (Inl e, w)
      | Inr txBuffer \<Rightarrow>
          (case Transaction_fromBytes sdk txBuffer of
             Inl e \<Rightarrow> (Inl e, w)
           | Inr tx \<Rightarrow>
               (case PrivateKey_fromString sdk privKeyStr of
                  Inl e \<Rightarrow> (Inl e, w)
                | Inr key \<Rightarrow>
                    (case Transaction_sign sdk tx key of
                       Inl e \<Rightarrow> (Inl e, w)
                     | Inr signedTx \<Rightarrow>
                         (Inr [(''signedTransaction'',
                                toString_base64 (Transaction_toBytes sdk signedTx))], w)))))"

text \<open>The branch \<^verbatim>\<open>operation === 'submit'\<close> (lines 315--330).\<close>

definition transaction_submit ::
  "('w, 't) sdk \<Rightarrow> Client \<Rightarrow> request \<Rightarrow> 'w \<Rightarrow> (error + IDataObject) \<times> 'w" where
  "transaction_submit sdk client req w =
     (case getTransactionBytes sdk req of
        Inl e \<Rightarrow> (Inl e, w)
      | Inr txBuffer \<Rightarrow>
          (case Transaction_fromBytes sdk txBuffer of
             Inl e \<Rightarrow> (Inl e, w)
           | Inr tx \<Rightarrow>
               (case Transaction_execute sdk client tx w of
                  (Inl e, w1) \<Rightarrow> (Inl e, w1)
                | (Inr txResponse, w1) \<Rightarrow>
                    (case getReceipt sdk client txResponse w1 of
                       (Inl e, w2) \<Rightarrow> (Inl e, w2)
                     | (Inr receipt, w2) \<Rightarrow>
                         (Inr (submission_fields txResponse receipt), w2)))))"

text \<open>The branch \<^verbatim>\<open>operation === 'signAndSubmit'\<close> (lines 331--350).\<close>

definition transaction_signAndSubmit ::
  "('w, 't) sdk \<Rightarrow> Client \<Rightarrow> string \<Rightarrow> request \<Rightarrow> 'w \<Rightarrow> (error + IDataObject) \<times> 'w" where
  "transaction_signAndSubmit sdk client privKeyStr req w =
     (case getTransactionBytes sdk req of
        Inl e \<Rightarrow> (Inl e, w)
      | Inr txBuffer \<Rightarrow>
          (case Transaction_fromBytes sdk txBuffer of
             Inl e \<Rightarrow> (Inl e, w)
           | Inr tx \<Rightarrow>
               (case PrivateKey_fromString sdk privKeyStr of
                  Inl e \<Rightarrow> (Inl e, w)
                | Inr key \<Rightarrow>
                    (case Transaction_sign sdk tx key of
                       Inl e \<Rightarrow> (Inl e, w)
                     | Inr signedTx \<Rightarrow>
                         (case Transaction_execute sdk client signedTx w of
                            (Inl e, w1) \<Rightarrow> (Inl e, w1)
                          | (Inr txResponse, w1) \<Rightarrow>
                              (case getReceipt sdk client txResponse w1 of
                                 (Inl e, w2) \<Rightarrow> (Inl e, w2)
                               | (Inr receipt, w2) \<Rightarrow>
                                   (Inr (submission_fields txResponse receipt
                                         @ [(''signedTransaction'',
                                             toString_base64 (Transaction_toBytes sdk signedTx))]),
                                    w2)))))))"

text \<open>
  The body of the \<^verbatim>\<open>try\<close> block for one item (lines 220--358): the dispatch on
  resource and operation. \<open>Inl\<close> is the error the \<^verbatim>\<open>catch\<close> receives.
\<close>

definition process_item ::
  "('w, 't) sdk \<Rightarrow> Client \<Rightarrow> string \<Rightarrow> string \<Rightarrow> request \<Rightarrow> 'w \<Rightarrow> (error + IDataObject) \<times> 'w" where
  "process_item sdk client acct privKeyStr req w =
     (if resource req = ''account'' then
        (if accountOperation req = ''create'' then account_create sdk client req w
         else if accountOperation req = ''transfer'' then account_transfer sdk client acct req w
         else (Inl (NodeOperationError
                 (''Unsupported account operation: '' @ accountOperation req)), w))
      else if resource req = ''transaction'' then
        (if transactionOperation req = ''sign'' then transaction_sign sdk privKeyStr req w
         else if transactionOperation req = ''submit'' then transaction_submit sdk client req w
         else if transactionOperation req = ''signAndSubmit'' then
           transaction_signAndSubmit sdk client privKeyStr req w
         else (Inl (NodeOperationError
                 (''Unsupported transaction operation: '' @ transactionOperation req)), w))
      else (Inl (NodeOperationError (''Unsupported resource: '' @ resource req)), w))"

text \<open>
  The loop over the items (lines 218--368). \<open>continueOnFail\<close> is the platform's
  \<^verbatim>\<open>this.continueOnFail()\<close>; \<open>returnData\<close> is the array the loop pushes to: the
  result of an item (line 360), or in continue-on-fail mode the error record
  \<^verbatim>\<open>{ error: message }\<close> (line 363).
\<close>

fun execute_loop ::
  "('w, 't) sdk \<Rightarrow> bool \<Rightarrow> Client \<Rightarrow> string \<Rightarrow> string \<Rightarrow> request list \<Rightarrow>
     INodeExecutionData list \<Rightarrow> 'w \<Rightarrow> (error + INodeExecutionData list) \<times> 'w" where
  "execute_loop sdk continueOnFail client acct privKeyStr [] returnData w = (Inr returnData, w)"
| "execute_loop sdk continueOnFail client acct privKeyStr (req # rest) returnData w =
     (case process_item sdk client acct privKeyStr req w of
        (Inr result, w') \<Rightarrow>
          execute_loop sdk continueOnFail client acct privKeyStr rest
            (returnData @ [\<lparr>json = result\<rparr>]) w'
      | (Inl err, w') \<Rightarrow>
          if continueOnFail then
            execute_loop sdk continueOnFail client acct privKeyStr rest
              (returnData @ [\<lparr>json = [(''error'', message err)]\<rparr>]) w'
          else (Inl (NodeApiError err), w'))"

text \<open>
  The credentials as the platform hands them over: the object may be absent, and so may
  each of the two fields the node checks.
\<close>

record IHederaCredentials =
  accountId :: "string option"
  privateKey :: "string option"
  network :: string

definition credentials_error :: error where
  "credentials_error = NodeOperationError ''Hedera credentials are not set up correctly.''"

text \<open>
  \<^verbatim>\<open>execute\<close> (lines 195--371). A missing field or an empty string is falsy. The
  result is the output of \<^verbatim>\<open>prepareOutputData(returnData)\<close>, one output with the
  records, or the error thrown.
\<close>

text \<open>Lines 208--215: the client for the network, with the operator set.\<close>

definition make_client :: "string \<Rightarrow> string \<Rightarrow> string \<Rightarrow> Client" where
  "make_client net acct privKeyStr =
     (if net = ''mainnet'' then Client_forMainnet
      else if net = ''testnet'' then Client_forTestnet
      else Client_forPreviewnet) \<lparr>operator := Some (acct, privKeyStr)\<rparr>"

definition execute ::
  "('w, 't) sdk \<Rightarrow> bool \<Rightarrow> IHederaCredentials option \<Rightarrow> request list \<Rightarrow> 'w \<Rightarrow>
     (error + INodeExecutionData list list) \<times> 'w" where
  "execute sdk continueOnFail creds items w =
     (case creds of
        None \<Rightarrow> (Inl credentials_error, w)
      | Some c \<Rightarrow>
          (case (accountId c, privateKey c) of
             (Some acct, Some privKeyStr) \<Rightarrow>
               if acct = [] \<or> privKeyStr = [] then (Inl credentials_error, w)
               else
                 (case operator_error sdk acct privKeyStr of
                    Some e \<Rightarrow> (Inl e, w)
                  | None \<Rightarrow>
                      (case execute_loop sdk continueOnFail
                              (make_client (network c) acct privKeyStr)
                              acct privKeyStr items [] w of
                         (Inl e, w') \<Rightarrow> (Inl e, w')
                       | (Inr returnData, w') \<Rightarrow> (Inr [returnData], w')))
           | _ \<Rightarrow> (Inl credentials_error, w)))"

section \<open>Notions the properties are stated with\<close>

text \<open>A credential field that \<^verbatim>\<open>!field\<close> finds missing: absent or the empty string.\<close>

fun missing :: "string option \<Rightarrow> bool" where
  "missing None = True"
| "missing (Some s) = (s = [])"

definition credentials_incomplete :: "IHederaCredentials option \<Rightarrow> bool" where
  "credentials_incomplete creds =
     (case creds of None \<Rightarrow> True | Some c \<Rightarrow> missing (accountId c) \<or> missing (privateKey c))"

text \<open>The operation a request names, for its resource.\<close>

definition operation_of :: "request \<Rightarrow> string" where
  "operation_of req =
     (if resource req = ''account'' then accountOperation req else transactionOperation req)"

text \<open>The fields of a success record, by operation, as the interface lists them.\<close>

definition expected_fields :: "string \<Rightarrow> string list" where
  "expected_fields operation =
     (if operation = ''create'' then
        [''newAccountId'', ''newAccountPublicKey'', ''newAccountPrivateKey'']
      else if operation = ''transfer'' then [''status'', ''transactionId'']
      else if operation = ''sign'' then [''signedTransaction'']
      else if operation = ''submit'' then
        [''transactionId'', ''nodeId'', ''transactionHash'', ''status'']
      else if operation = ''signAndSubmit'' then
        [''transactionId'', ''nodeId'', ''transactionHash'', ''status'', ''signedTransaction'']
      else [])"

section \<open>A test double of the SDK\<close>

text \<open>
  A ledger that logs every call that reaches it: the world is the list of the calls made
  so far. It accepts every transaction but an account creation with a negative initial
  balance, and every receipt reports \<open>SUCCESS\<close>. A transaction object is its bytes;
  signing appends one byte. An account identifier is three decimal numerals separated by
  dots. The runtime parts throw on every value that is not an array, and take an element
  that is not a number as 0.
\<close>

fun digits_value :: "nat \<Rightarrow> string \<Rightarrow> nat option" where
  "digits_value n [] = Some n"
| "digits_value n (c # cs) =
     (case index_of c ''0123456789'' of
        None \<Rightarrow> None
      | Some d \<Rightarrow> digits_value (10 * n + d) cs)"

definition parse_nat :: "string \<Rightarrow> nat option" where
  "parse_nat s = (if s = [] then None else digits_value 0 s)"

fun split_dots :: "string \<Rightarrow> string \<Rightarrow> string list" where
  "split_dots cur [] = [rev cur]"
| "split_dots cur (c # cs) =
     (if c = CHR ''.'' then rev cur # split_dots [] cs else split_dots (c # cur) cs)"

definition parse_account_id :: "string \<Rightarrow> error + AccountId" where
  "parse_account_id s =
     (case map parse_nat (split_dots [] s) of
        [Some shard, Some realm, Some num] \<Rightarrow> Inr (AccountId shard realm num)
      | _ \<Rightarrow> Inl (SdkError (''failed to parse entity id: '' @ s)))"

definition test_response :: TransactionResponse where
  "test_response =
     \<lparr>transactionId = ''0.0.1001@1700000000.000000001'', nodeId = Some ''0.0.3'',
      transactionHash = [171, 1]\<rparr>"

definition test_receipt :: TransactionReceipt where
  "test_receipt = \<lparr>receiptStatus = ''SUCCESS'', receiptAccountId = Some ''0.0.2002''\<rparr>"

definition test_sdk :: "(string list, byte list) sdk" where
  "test_sdk =
     \<lparr>operator_error = (\<lambda>acct key. None),
      generateED25519 = (\<lambda>w. (PrivateKey ''302e-new-private'', w)),
      publicKey = (\<lambda>key. PublicKey ''302a-new-public''),
      AccountCreate_execute = (\<lambda>client key balance w.
        if toTinybars balance < 0
        then (Inl (SdkError ''INVALID_INITIAL_BALANCE''), w @ [''AccountCreateTransaction.execute''])
        else (Inr test_response, w @ [''AccountCreateTransaction.execute''])),
      Transfer_execute = (\<lambda>client tx w. (Inr test_response, w @ [''TransferTransaction.execute''])),
      getReceipt = (\<lambda>client response w. (Inr test_receipt, w @ [''getReceipt''])),
      Transaction_fromBytes = (\<lambda>bs.
        if bs = [] then Inl (SdkError ''(BUG) body.data was not set in the protobuf'') else Inr bs),
      PrivateKey_fromString = (\<lambda>s. Inr (PrivateKey s)),
      Transaction_sign = (\<lambda>tx key. Inr (tx @ [255])),
      Transaction_execute = (\<lambda>client tx w. (Inr test_response, w @ [''Transaction.execute''])),
      Transaction_toBytes = (\<lambda>tx. tx),
      AccountId_fromString = parse_account_id,
      Buffer_from_other = (\<lambda>v. Inl (SdkError ''The first argument must be of type string or an instance of Buffer, ArrayBuffer, or Array or an Array-like Object.'')),
      ToUint8_other = (\<lambda>v. 0)\<rparr>"

definition test_client :: Client where
  "test_client = make_client ''testnet'' ''0.0.1001'' ''302e-operator''"

definition test_credentials :: IHederaCredentials where
  "test_credentials =
     \<lparr>accountId = Some ''0.0.1001'', privateKey = Some ''302e-operator'', network = ''testnet''\<rparr>"

text \<open>A request with the default every parameter declares (lines 59--185).\<close>

definition default_request :: request where
  "default_request =
     \<lparr>resource = ''account'', accountOperation = ''create'', initialBalance = 0,
      recipientId = [], amount = 0, transactionOperation = ''sign'',
      transactionFormat = ''base64'', transaction = [], transactionBuffer = JStr []\<rparr>"

definition create_request :: "rat \<Rightarrow> request" where
  "create_request balance = default_request\<lparr>initialBalance := balance\<rparr>"

definition transfer_request :: "string \<Rightarrow> rat \<Rightarrow> request" where
  "transfer_request recipient amt =
     default_request\<lparr>accountOperation := ''transfer'', recipientId := recipient, amount := amt\<rparr>"

definition transaction_request :: "string \<Rightarrow> string \<Rightarrow> request" where
  "transaction_request operation payload =
     default_request\<lparr>resource := ''transaction'', transactionOperation := operation,
       transaction := payload\<rparr>"

text \<open>A batch of three requests; the second names a resource the node does not have.\<close>

definition test_batch :: "request list" where
  "test_batch = [transfer_request ''0.0.2002'' (3 / 2), default_request\<lparr>resource := ''token''\<rparr>,
     transaction_request ''sign'' ''AQID'']"

section \<open>Properties\<close>

subsection \<open>Amount construction\<close>

lemma Hbar_new_accepts: "Hbar_new (of_int m / 100000000) = Inr (Hbar m)"
  by (simp add: Hbar_new_def)

lemma scaled_not_integer:
  fixes m z :: int and d :: nat
  assumes "8 < d" and "\<not> 10 dvd m"
  shows "(of_int z :: rat) \<noteq> of_int m / 10 ^ d * 100000000"
proof
  assume eq: "(of_int z :: rat) = of_int m / 10 ^ d * 100000000"
  from less_imp_Suc_add [OF assms(1)] obtain k where "d = Suc (8 + k)" ..
  then have d: "d = 8 + Suc k" by simp
  have "(10::rat) ^ d = 100000000 * 10 ^ Suc k"
    by (simp add: d power_add)
  with eq have "(of_int z :: rat) = of_int m / 10 ^ Suc k"
    by simp
  then have "(of_int z :: rat) * 10 ^ Suc k = of_int m"
    by (simp add: field_simps)
  then have "(of_int (z * 10 ^ Suc k) :: rat) = of_int m"
    by simp
  then have "z * 10 ^ Suc k = m"
    by (simp only: of_int_eq_iff)
  then have "m = 10 * (z * 10 ^ k)"
    by (simp add: mult.assoc mult.left_commute)
  then have "10 dvd m"
    by (rule dvdI)
  with assms(2) show False by simp
qed

lemma Hbar_new_rejects:
  assumes "8 < d" and "\<not> 10 dvd m"
  shows "Hbar_new (of_int m / 10 ^ d) = Inl (SdkError ''Hbar in tinybars contains decimals'')"
  using scaled_not_integer [OF assms, of "\<lfloor>of_int m / 10 ^ d * 100000000 :: rat\<rfloor>"]
  by (simp add: Hbar_new_def Let_def)

subsection \<open>Transfers are zero-sum\<close>

lemma add_transfer_sum:
  "sum_list (map (\<lambda>p. toTinybars (snd p)) (add_transfer a h ts))
     = sum_list (map (\<lambda>p. toTinybars (snd p)) ts) + toTinybars h"
  by (induction a h ts rule: add_transfer.induct) simp_all

lemma buildTransferTransaction_list:
  assumes "buildTransferTransaction sdk sender recipient h = Inr tx"
  shows "\<exists>a b. AccountId_fromString sdk sender = Inr a \<and> AccountId_fromString sdk recipient = Inr b
     \<and> hbarTransfers tx = add_transfer b h [(a, negated h)]"
  using assms
  by (auto simp: buildTransferTransaction_def addHbarTransfer_def split: sum.splits)

lemma test_parse:
  "parse_account_id ''0.0.1001'' = Inr (AccountId 0 0 1001)"
  "parse_account_id ''0.0.2002'' = Inr (AccountId 0 0 2002)"
  "parse_account_id [] = Inl (SdkError ''failed to parse entity id: '')"
  by (simp_all add: parse_account_id_def parse_nat_def)

lemma test_AccountId_fromString: "AccountId_fromString test_sdk = parse_account_id"
  by (simp add: test_sdk_def)

text \<open>
  C6 (as amended). Every transfer transaction the transfer operation constructs has signed
  amounts that sum to zero. When the amount is positive and sender and recipient are
  different accounts, the list has exactly two entries: the sender is debited the negated
  amount and the recipient is credited the positive amount.
\<close>

theorem transfer_zero_sum:
  assumes "buildTransferTransaction sdk sender recipient h = Inr tx"
  shows "transfer_sum tx = 0
     \<and> (AccountId_fromString sdk sender = Inr a \<and> AccountId_fromString sdk recipient = Inr b
          \<and> a \<noteq> b \<and> 0 < toTinybars h \<longrightarrow>
        hbarTransfers tx = [(a, Hbar (- toTinybars h)), (b, h)]
          \<and> - toTinybars h < 0 \<and> 0 < toTinybars h)"
proof -
  from buildTransferTransaction_list [OF assms] obtain a' b' where
    p: "AccountId_fromString sdk sender = Inr a'" "AccountId_fromString sdk recipient = Inr b'"
    and l: "hbarTransfers tx = add_transfer b' h [(a', negated h)]"
    by blast
  have "transfer_sum tx = 0"
    by (simp add: transfer_sum_def l add_transfer_sum negated_def)
  moreover have "hbarTransfers tx = [(a, Hbar (- toTinybars h)), (b, h)]"
    if "AccountId_fromString sdk sender = Inr a" "AccountId_fromString sdk recipient = Inr b" "a \<noteq> b"
    using that p l by (simp add: negated_def)
  ultimately show ?thesis by simp
qed

theorem transfer_zero_sum_witness:
  "buildTransferTransaction test_sdk ''0.0.1001'' ''0.0.2002'' (Hbar 150000000)
     = Inr (TransferTransaction
         [(AccountId 0 0 1001, Hbar (- 150000000)), (AccountId 0 0 2002, Hbar 150000000)])
   \<and> transfer_sum (TransferTransaction
         [(AccountId 0 0 1001, Hbar (- 150000000)), (AccountId 0 0 2002, Hbar 150000000)]) = 0"
proof -
  have b: "buildTransferTransaction test_sdk ''0.0.1001'' ''0.0.2002'' (Hbar 150000000)
     = Inr (TransferTransaction
         [(AccountId 0 0 1001, Hbar (- 150000000)), (AccountId 0 0 2002, Hbar 150000000)])"
    by (simp add: buildTransferTransaction_def addHbarTransfer_def test_AccountId_fromString
          test_parse negated_def)
  from transfer_zero_sum [OF b, of "AccountId 0 0 1001" "AccountId 0 0 2002"] b
  show ?thesis by (simp add: test_AccountId_fromString test_parse)
qed

text \<open>
  With the operator as recipient the list is the single entry (operator, 0); with the
  amount \<open>-1.5\<close> the sender is credited and the recipient debited.
\<close>

theorem transfer_entries_counterexample:
  "buildTransferTransaction test_sdk ''0.0.1001'' ''0.0.1001'' (Hbar 100000000)
     = Inr (TransferTransaction [(AccountId 0 0 1001, Hbar 0)])
   \<and> Hbar_new (- (3 / 2)) = Inr (Hbar (- 150000000))
   \<and> buildTransferTransaction test_sdk ''0.0.1001'' ''0.0.2002'' (Hbar (- 150000000))
     = Inr (TransferTransaction
         [(AccountId 0 0 1001, Hbar 150000000), (AccountId 0 0 2002, Hbar (- 150000000))])"
  using Hbar_new_accepts [of "- 150000000"]
  by (simp add: buildTransferTransaction_def addHbarTransfer_def test_AccountId_fromString
        test_parse negated_def)

subsection \<open>The two wire formats\<close>

lemma index_of_nth: "distinct xs \<Longrightarrow> i < length xs \<Longrightarrow> index_of (xs ! i) xs = Some i"
proof (induction xs arbitrary: i)
  case Nil then show ?case by simp
next
  case (Cons y ys)
  show ?case
  proof (cases i)
    case 0 then show ?thesis by simp
  next
    case (Suc j)
    with Cons.prems have "j < length ys" "distinct ys" "ys ! j \<noteq> y" by auto
    with Cons.IH[of j] Suc show ?thesis by simp
  qed
qed

lemma b64_alphabet_length: "length b64_alphabet = 64"
  by (simp add: b64_alphabet_def)

lemma b64_alphabet_distinct: "distinct b64_alphabet"
  by (simp add: b64_alphabet_def)

lemma b64_alphabet_plain: "CHR ''-'' \<notin> set b64_alphabet" "CHR ''_'' \<notin> set b64_alphabet" "CHR ''='' \<notin> set b64_alphabet"
  by (simp_all add: b64_alphabet_def)

lemma b64_char_in: "b64_char i \<in> set b64_alphabet"
  by (simp add: b64_char_def b64_alphabet_length)

lemma b64_value_char:
  assumes "i < 64"
  shows "b64_value (b64_char i) = Some i"
proof -
  have "b64_char i \<noteq> CHR ''-''" "b64_char i \<noteq> CHR ''_''"
    using b64_char_in[of i] b64_alphabet_plain by auto
  moreover have "index_of (b64_char i) b64_alphabet = Some i"
    using index_of_nth[OF b64_alphabet_distinct, of i] assms
    by (simp add: b64_char_def b64_alphabet_length)
  ultimately show ?thesis by (simp add: b64_value_def)
qed

lemma b64_char_not_pad: "b64_char i \<noteq> CHR ''=''"
  using b64_char_in[of i] b64_alphabet_plain by auto


lemma unat_byte_less: "unat (a :: byte) < 256"
  using unsigned_less[of a, where ?'a = nat] by simp

lemma sextets_of_less: "\<forall>s \<in> set (sextets_of bs). s < 64"
proof (induction bs rule: sextets_of.induct)
  case (3 a b)
  have "unat a < 256" "unat b < 256" by (rule unat_byte_less)+
  then show ?case by auto
next
  case (4 a b c bs)
  have "unat a < 256" "unat b < 256" "unat c < 256" by (rule unat_byte_less)+
  with 4 show ?case by auto
next
  case (2 a)
  have "unat a < 256" by (rule unat_byte_less)
  then show ?case by auto
qed simp

lemma takeWhile_pad:
  "takeWhile (\<lambda>c. c \<noteq> CHR ''='') (toString_base64 bs) = map b64_char (sextets_of bs)"
  by (induction bs rule: toString_base64.induct) (simp_all add: b64_char_not_pad)

lemma map_filter_value:
  "\<forall>s \<in> set ss. s < 64 \<Longrightarrow> List.map_filter b64_value (map b64_char ss) = ss"
  by (induction ss) (simp_all add: List.map_filter_simps b64_value_char)

lemma hi_part: "q < 16 \<Longrightarrow> (a * 16 + q) div 16 = (a::nat)"
  by simp

lemma lo_part: "q < 16 \<Longrightarrow> (a * 16 + q) mod 16 = (q::nat)"
  by simp

lemma hi_part4: "q < 4 \<Longrightarrow> (a * 4 + q) div 4 = (a::nat)"
  by simp

lemma lo_part4: "q < 4 \<Longrightarrow> (a * 4 + q) mod 4 = (q::nat)"
  by simp

lemma div16_less: "y < 256 \<Longrightarrow> y div 16 < (16::nat)"
  by (simp add: less_mult_imp_div_less)

lemma div64_less: "z < 256 \<Longrightarrow> z div 64 < (4::nat)"
  by (simp add: less_mult_imp_div_less)

lemma join1: "y < 256 \<Longrightarrow> x div 4 * 4 + (x mod 4 * 16 + y div 16) div 16 = (x::nat)"
  by (simp add: hi_part div16_less)

lemma join2: "y < 256 \<Longrightarrow> z < 256 \<Longrightarrow>
    (x mod 4 * 16 + y div 16) mod 16 * 16 + (y mod 16 * 4 + z div 64) div 4 = (y::nat)"
  by (simp add: lo_part hi_part4 div16_less div64_less)

lemma join3: "z < 256 \<Longrightarrow> (y mod 16 * 4 + z div 64) mod 4 * 64 + z mod 64 = (z::nat)"
  by (simp add: lo_part4 div64_less)

lemma join1': "x div 4 * 4 + (x mod 4 * 16) div 16 = (x::nat)"
  by simp

lemma join2': "y < 256 \<Longrightarrow> (x mod 4 * 16 + y div 16) mod 16 * 16 + (y mod 16 * 4) div 4 = (y::nat)"
  by (simp add: lo_part div16_less)

lemma sextets_bytes_of: "sextets_bytes (sextets_of bs) = bs"
proof (induction bs rule: sextets_of.induct)
  case 1 show ?case by simp
next
  case (2 a) show ?case by (simp add: join1')
next
  case (3 a b)
  have "unat b < 256" by (rule unat_byte_less)
  then show ?case by (simp add: join1 join2')
next
  case (4 a b c bs)
  have "unat b < 256" "unat c < 256" by (rule unat_byte_less)+
  with 4 show ?case by (simp add: join1 join2 join3)
qed

lemma base64_roundtrip: "Buffer_from_base64 (toString_base64 bs) = bs"
  by (simp add: Buffer_from_base64_def takeWhile_pad map_filter_value sextets_of_less sextets_bytes_of)

lemma ToUint8_uint: "map (\<lambda>b. ToUint8 sdk (JNum (uint b))) bs = bs"
  by (induction bs) simp_all


text \<open>
  C7. For every byte sequence \<open>bs\<close>, the helper \<open>getTransactionBytes\<close> returns \<open>bs\<close>
  both for the base64 string of \<open>bs\<close> in base64 mode and for the object wrapping the
  byte array of \<open>bs\<close> in buffer mode: the two wire formats decode to the same bytes.
\<close>

theorem wire_formats_agree:
  "getTransactionBytes sdk
       (req\<lparr>transactionFormat := ''base64'', transaction := toString_base64 bs\<rparr>)
     = Inr bs
   \<and> getTransactionBytes sdk
       (req\<lparr>transactionFormat := ''buffer'', transactionBuffer := buffer_object bs\<rparr>)
     = Inr bs"
  by (simp add: getTransactionBytes_def base64_roundtrip buffer_object_def ToUint8_uint comp_def)

subsection \<open>The loop\<close>

lemma execute_loop_append:
  "execute_loop sdk cof client acct key (xs @ ys) acc w =
     (case execute_loop sdk cof client acct key xs acc w of
        (Inl e, w') \<Rightarrow> (Inl e, w')
      | (Inr acc', w') \<Rightarrow> execute_loop sdk cof client acct key ys acc' w')"
proof (induction xs arbitrary: acc w)
  case Nil
  show ?case by simp
next
  case (Cons req rest)
  obtain out w1 where step: "process_item sdk client acct key req w = (out, w1)"
    by (cases "process_item sdk client acct key req w")
  show ?case
  proof (cases out)
    case (Inr result)
    with step Cons.IH [of "acc @ [\<lparr>json = result\<rparr>]" w1] show ?thesis by simp
  next
    case (Inl err)
    show ?thesis
    proof (cases cof)
      case True
      with step Inl Cons.IH [of "acc @ [\<lparr>json = [(''error'', message err)]\<rparr>]" w1]
      show ?thesis by simp
    next
      case False
      with step Inl show ?thesis by simp
    qed
  qed
qed

lemma execute_loop_step:
  "execute_loop sdk True client acct key [req] acc w =
     (Inr (acc @ [case fst (process_item sdk client acct key req w) of
                    Inr result \<Rightarrow> \<lparr>json = result\<rparr>
                  | Inl err \<Rightarrow> \<lparr>json = [(''error'', message err)]\<rparr>]),
      snd (process_item sdk client acct key req w))"
  by (simp split: prod.splits sum.splits)

lemma execute_loop_continue:
  "\<exists>recs w'. execute_loop sdk True client acct key xs acc w = (Inr (acc @ recs), w')
      \<and> length recs = length xs"
proof (induction xs arbitrary: acc w)
  case Nil
  show ?case by simp
next
  case (Cons req rest)
  obtain out w1 where step: "process_item sdk client acct key req w = (out, w1)"
    by (cases "process_item sdk client acct key req w")
  define r where "r = (case out of Inr result \<Rightarrow> \<lparr>json = result\<rparr>
    | Inl err \<Rightarrow> \<lparr>json = [(''error'', message err)]\<rparr>)"
  from Cons.IH [of "acc @ [r]" w1] obtain recs w' where
    rest: "execute_loop sdk True client acct key rest (acc @ [r]) w1 = (Inr ((acc @ [r]) @ recs), w')"
    and len: "length recs = length rest"
    by blast
  have "execute_loop sdk True client acct key (req # rest) acc w = (Inr (acc @ (r # recs)), w')"
    using step rest by (cases out) (simp_all add: r_def)
  with len show ?case
    by (intro exI [of _ "r # recs"] exI [of _ w']) simp
qed

subsection \<open>The test double at concrete requests\<close>

lemma test_transfer:
  "process_item test_sdk test_client ''0.0.1001'' ''302e-operator''
      (transfer_request ''0.0.2002'' (3 / 2)) w
     = (Inr [(''status'', ''SUCCESS''), (''transactionId'', ''0.0.1001@1700000000.000000001'')],
        w @ [''TransferTransaction.execute'', ''getReceipt''])"
  using Hbar_new_accepts [of 150000000]
  by (simp add: process_item_def transfer_request_def default_request_def
        account_transfer_def buildTransferTransaction_def addHbarTransfer_def
        test_AccountId_fromString test_parse)
     (simp add: test_sdk_def test_response_def test_receipt_def)

lemma test_unsupported:
  "process_item test_sdk test_client ''0.0.1001'' ''302e-operator''
      (default_request\<lparr>resource := ''token''\<rparr>) w
     = (Inl (NodeOperationError ''Unsupported resource: token''), w)"
  by (simp add: process_item_def default_request_def)

lemma test_sign:
  "process_item test_sdk test_client ''0.0.1001'' ''302e-operator''
      (transaction_request ''sign'' ''AQID'') w
     = (Inr [(''signedTransaction'', ''AQID/w=='')], w)"
  by (simp add: process_item_def transaction_request_def default_request_def
        transaction_sign_def getTransactionBytes_def Buffer_from_base64_def
        b64_value_def b64_alphabet_def List.map_filter_simps test_sdk_def b64_char_def)

lemma test_sign_and_submit:
  "process_item test_sdk test_client ''0.0.1001'' ''302e-operator''
      (transaction_request ''signAndSubmit'' ''AQID'') []
     = (Inr [(''transactionId'', ''0.0.1001@1700000000.000000001''), (''nodeId'', ''0.0.3''),
             (''transactionHash'', ''ab01''), (''status'', ''SUCCESS''),
             (''signedTransaction'', ''AQID/w=='')],
        [''Transaction.execute'', ''getReceipt''])"
  by (simp add: process_item_def transaction_request_def default_request_def
        transaction_signAndSubmit_def getTransactionBytes_def Buffer_from_base64_def
        b64_value_def b64_alphabet_def List.map_filter_simps test_sdk_def submission_fields_def
        test_response_def test_receipt_def toString_hex_def hex_digit_def b64_char_def)

lemma test_client_eq: "make_client (network test_credentials) ''0.0.1001'' ''302e-operator'' = test_client"
  by (simp add: test_client_def test_credentials_def)

subsection \<open>Credentials\<close>

text \<open>
  C2. If the credential object is absent, or its account identifier or its private key is
  absent or empty, \<open>execute\<close> throws the configuration error, whatever the items and the
  mode: no item is processed, no record is returned, and the world is as it was (no call
  of the SDK has been made).
\<close>

theorem missing_credentials_abort:
  "credentials_incomplete creds \<Longrightarrow>
     execute sdk continueOnFail creds items w = (Inl credentials_error, w)"
  by (cases creds)
     (auto simp: credentials_incomplete_def execute_def split: option.splits elim: missing.elims)

theorem missing_credentials_abort_witness:
  "credentials_incomplete (Some (test_credentials\<lparr>privateKey := None\<rparr>))
   \<and> execute test_sdk True (Some (test_credentials\<lparr>privateKey := None\<rparr>))
        [default_request, default_request] []
      = (Inl (NodeOperationError ''Hedera credentials are not set up correctly.''), [])"
proof -
  have h: "credentials_incomplete (Some (test_credentials\<lparr>privateKey := None\<rparr>))"
    by (simp add: credentials_incomplete_def test_credentials_def)
  from missing_credentials_abort [OF h, of test_sdk True "[default_request, default_request]" "[]"] h
  show ?thesis by (simp add: credentials_error_def)
qed

subsection \<open>Dispatch\<close>

text \<open>
  C3. A request whose resource is neither \<open>account\<close> nor \<open>transaction\<close>, or whose
  operation is not one the resource has, fails with a \<open>NodeOperationError\<close> whose message
  ends with the offending value; nothing has been sent to the SDK.
\<close>

theorem unsupported_names_value:
  "(resource req \<noteq> ''account'' \<and> resource req \<noteq> ''transaction'' \<longrightarrow>
      process_item sdk client acct privKeyStr req w
        = (Inl (NodeOperationError (''Unsupported resource: '' @ resource req)), w))
   \<and> (resource req = ''account'' \<and> accountOperation req \<noteq> ''create''
        \<and> accountOperation req \<noteq> ''transfer'' \<longrightarrow>
      process_item sdk client acct privKeyStr req w
        = (Inl (NodeOperationError
             (''Unsupported account operation: '' @ accountOperation req)), w))
   \<and> (resource req = ''transaction'' \<and> transactionOperation req \<noteq> ''sign''
        \<and> transactionOperation req \<noteq> ''submit''
        \<and> transactionOperation req \<noteq> ''signAndSubmit'' \<longrightarrow>
      process_item sdk client acct privKeyStr req w
        = (Inl (NodeOperationError
             (''Unsupported transaction operation: '' @ transactionOperation req)), w))"
  by (simp add: process_item_def)

theorem unsupported_names_value_witness:
  "process_item test_sdk test_client ''0.0.1001'' ''302e-operator''
      (default_request\<lparr>resource := ''token''\<rparr>) []
     = (Inl (NodeOperationError ''Unsupported resource: token''), [])
   \<and> process_item test_sdk test_client ''0.0.1001'' ''302e-operator''
      (default_request\<lparr>accountOperation := ''delete''\<rparr>) []
     = (Inl (NodeOperationError ''Unsupported account operation: delete''), [])
   \<and> process_item test_sdk test_client ''0.0.1001'' ''302e-operator''
      (transaction_request ''freeze'' ''AQID'') []
     = (Inl (NodeOperationError ''Unsupported transaction operation: freeze''), [])"
  using unsupported_names_value [of "default_request\<lparr>resource := ''token''\<rparr>" test_sdk test_client
          "''0.0.1001''" "''302e-operator''" "[]"]
        unsupported_names_value [of "default_request\<lparr>accountOperation := ''delete''\<rparr>" test_sdk
          test_client "''0.0.1001''" "''302e-operator''" "[]"]
        unsupported_names_value [of "transaction_request ''freeze'' ''AQID''" test_sdk test_client
          "''0.0.1001''" "''302e-operator''" "[]"]
  by (simp add: default_request_def transaction_request_def)

subsection \<open>Result records\<close>

lemma fields_create:
  "account_create sdk client req w = (Inr result, w') \<Longrightarrow>
     map fst result = [''newAccountId'', ''newAccountPublicKey'', ''newAccountPrivateKey'']"
  by (auto simp: account_create_def Let_def split: prod.splits sum.splits option.splits)

lemma fields_transfer:
  "account_transfer sdk client acct req w = (Inr result, w') \<Longrightarrow>
     map fst result = [''status'', ''transactionId'']"
  by (auto simp: account_transfer_def split: prod.splits sum.splits)

lemma fields_sign:
  "transaction_sign sdk privKeyStr req w = (Inr result, w') \<Longrightarrow>
     map fst result = [''signedTransaction'']"
  by (auto simp: transaction_sign_def split: prod.splits sum.splits)

lemma fields_submit:
  "transaction_submit sdk client req w = (Inr result, w') \<Longrightarrow>
     map fst result = [''transactionId'', ''nodeId'', ''transactionHash'', ''status'']"
  by (auto simp: transaction_submit_def submission_fields_def split: prod.splits sum.splits)

lemma fields_signAndSubmit:
  "transaction_signAndSubmit sdk client privKeyStr req w = (Inr result, w') \<Longrightarrow>
     map fst result
       = [''transactionId'', ''nodeId'', ''transactionHash'', ''status'', ''signedTransaction'']"
  by (auto simp: transaction_signAndSubmit_def submission_fields_def split: prod.splits sum.splits)

text \<open>
  C8. The record of a successfully processed request has exactly the fields of its
  operation, each once: those of \<open>expected_fields\<close>.
\<close>

theorem success_record_fields:
  assumes "process_item sdk client acct privKeyStr req w = (Inr result, w')"
  shows "map fst result = expected_fields (operation_of req) \<and> distinct (map fst result)"
proof -
  have "map fst result = expected_fields (operation_of req)"
    using assms
    by (auto simp: process_item_def operation_of_def expected_fields_def split: if_splits
          dest: fields_create fields_transfer fields_sign fields_submit fields_signAndSubmit)
  moreover have "distinct (expected_fields operation)" for operation
    by (simp add: expected_fields_def)
  ultimately show ?thesis by simp
qed

theorem success_record_fields_witness:
  "process_item test_sdk test_client ''0.0.1001'' ''302e-operator''
      (transaction_request ''signAndSubmit'' ''AQID'') []
     = (Inr [(''transactionId'', ''0.0.1001@1700000000.000000001''), (''nodeId'', ''0.0.3''),
             (''transactionHash'', ''ab01''), (''status'', ''SUCCESS''),
             (''signedTransaction'', ''AQID/w=='')],
        [''Transaction.execute'', ''getReceipt''])
   \<and> [''transactionId'', ''nodeId'', ''transactionHash'', ''status'', ''signedTransaction'']
     = expected_fields ''signAndSubmit''"
  using success_record_fields [OF test_sign_and_submit] test_sign_and_submit
  by (simp add: operation_of_def transaction_request_def default_request_def)

subsection \<open>Failure isolation and fail-fast\<close>

text \<open>
  C1. In continue-on-fail mode the loop over \<open>N\<close> requests ends with exactly \<open>N\<close>
  records, in the order of the requests: record \<open>k\<close> is \<^verbatim>\<open>{ json: result }\<close> with the
  result of request \<open>k\<close> if it succeeds, and the error record
  \<^verbatim>\<open>{ json: { error: message } }\<close> with the message of its error if it fails, request
  \<open>k\<close> being processed in the world the first \<open>k\<close> requests left. The failure of one
  request removes or moves no record of another. With complete credentials and an operator
  the SDK accepts, these records are the one output \<open>execute\<close> returns.
\<close>

theorem isolated_mode_records:
  "\<exists>recs w'. execute_loop sdk True client acct key items [] w = (Inr recs, w')
     \<and> length recs = length items
     \<and> (\<forall>k < length items.
          recs ! k =
            (case fst (process_item sdk client acct key (items ! k)
                         (snd (execute_loop sdk True client acct key (take k items) [] w))) of
               Inr result \<Rightarrow> \<lparr>json = result\<rparr>
             | Inl err \<Rightarrow> \<lparr>json = [(''error'', message err)]\<rparr>))
     \<and> (accountId c = Some acct \<and> privateKey c = Some key \<and> acct \<noteq> [] \<and> key \<noteq> []
          \<and> operator_error sdk acct key = None \<and> client = make_client (network c) acct key
        \<longrightarrow> execute sdk True (Some c) items w = (Inr [recs], w'))"
proof -
  let ?loop = "execute_loop sdk True client acct key"
  let ?rec = "\<lambda>req v. case fst (process_item sdk client acct key req v) of
      Inr result \<Rightarrow> \<lparr>json = result\<rparr>
    | Inl err \<Rightarrow> \<lparr>json = [(''error'', message err)]\<rparr>"
  from execute_loop_continue [of sdk client acct key items "[]" w]
  obtain recs w' where all: "?loop items [] w = (Inr recs, w')" and len: "length recs = length items"
    by auto
  have nth: "recs ! k = ?rec (items ! k) (snd (?loop (take k items) [] w))"
    if k: "k < length items" for k
  proof -
    from execute_loop_continue [of sdk client acct key "take k items" "[]" w]
    obtain pre w1 where pre: "?loop (take k items) [] w = (Inr pre, w1)"
      and lpre: "length pre = length (take k items)"
      by auto
    let ?r = "?rec (items ! k) w1"
    from execute_loop_continue [of sdk client acct key "drop (Suc k) items" "pre @ [?r]"
        "snd (process_item sdk client acct key (items ! k) w1)"]
    obtain post w2 where post: "?loop (drop (Suc k) items) (pre @ [?r])
        (snd (process_item sdk client acct key (items ! k) w1)) = (Inr ((pre @ [?r]) @ post), w2)"
      by auto
    have split: "items = take k items @ [items ! k] @ drop (Suc k) items"
      using k by (simp add: Cons_nth_drop_Suc)
    have "?loop items [] w = ?loop (take k items @ [items ! k] @ drop (Suc k) items) [] w"
      using split by simp
    also have "\<dots> = (Inr ((pre @ [?r]) @ post), w2)"
      by (simp only: execute_loop_append pre execute_loop_step post prod.case sum.case)
    finally have "recs = (pre @ [?r]) @ post"
      using all by simp
    moreover have "length pre = k"
      using lpre k by simp
    ultimately have "recs ! k = ?r"
      by (simp add: nth_append)
    with pre show ?thesis by simp
  qed
  have "execute sdk True (Some c) items w = (Inr [recs], w')"
    if "accountId c = Some acct \<and> privateKey c = Some key \<and> acct \<noteq> [] \<and> key \<noteq> []
          \<and> operator_error sdk acct key = None \<and> client = make_client (network c) acct key"
    using that all by (simp add: execute_def)
  with all len nth show ?thesis by blast
qed

theorem isolated_mode_records_witness:
  "\<exists>recs w'. execute test_sdk True (Some test_credentials) test_batch [] = (Inr [recs], w')
     \<and> length recs = 3
     \<and> recs ! 0 = \<lparr>json = [(''status'', ''SUCCESS''),
                     (''transactionId'', ''0.0.1001@1700000000.000000001'')]\<rparr>
     \<and> recs ! 1 = \<lparr>json = [(''error'', ''Unsupported resource: token'')]\<rparr>
     \<and> recs ! 2 = \<lparr>json = [(''signedTransaction'', ''AQID/w=='')]\<rparr>"
proof -
  have c: "accountId test_credentials = Some ''0.0.1001''
      \<and> privateKey test_credentials = Some ''302e-operator''
      \<and> ''0.0.1001'' \<noteq> [] \<and> ''302e-operator'' \<noteq> []
      \<and> operator_error test_sdk ''0.0.1001'' ''302e-operator'' = None
      \<and> test_client = make_client (network test_credentials) ''0.0.1001'' ''302e-operator''"
    by (simp add: test_credentials_def test_sdk_def test_client_def)
  from isolated_mode_records [of test_sdk test_client "''0.0.1001''" "''302e-operator''"
      test_batch "[]" test_credentials]
  obtain recs w' where len: "length recs = length test_batch"
    and nth: "\<forall>k < length test_batch.
          recs ! k =
            (case fst (process_item test_sdk test_client ''0.0.1001'' ''302e-operator''
                         (test_batch ! k)
                         (snd (execute_loop test_sdk True test_client ''0.0.1001''
                                 ''302e-operator'' (take k test_batch) [] []))) of
               Inr result \<Rightarrow> \<lparr>json = result\<rparr>
             | Inl err \<Rightarrow> \<lparr>json = [(''error'', message err)]\<rparr>)"
    and run: "accountId test_credentials = Some ''0.0.1001''
      \<and> privateKey test_credentials = Some ''302e-operator''
      \<and> ''0.0.1001'' \<noteq> [] \<and> ''302e-operator'' \<noteq> []
      \<and> operator_error test_sdk ''0.0.1001'' ''302e-operator'' = None
      \<and> test_client = make_client (network test_credentials) ''0.0.1001'' ''302e-operator''
      \<longrightarrow> execute test_sdk True (Some test_credentials) test_batch [] = (Inr [recs], w')"
    by blast
  from run c have run': "execute test_sdk True (Some test_credentials) test_batch [] = (Inr [recs], w')"
    by blast
  have "recs ! 0 = \<lparr>json = [(''status'', ''SUCCESS''),
                     (''transactionId'', ''0.0.1001@1700000000.000000001'')]\<rparr>"
    using nth [rule_format, of 0]
    by (simp add: test_batch_def test_transfer)
  moreover have "recs ! 1 = \<lparr>json = [(''error'', ''Unsupported resource: token'')]\<rparr>"
    using nth [rule_format, of 1]
    by (simp add: test_batch_def test_transfer test_unsupported)
  moreover have "recs ! 2 = \<lparr>json = [(''signedTransaction'', ''AQID/w=='')]\<rparr>"
    using nth [rule_format, of 2]
    by (simp add: test_batch_def test_transfer test_unsupported test_sign)
  moreover have "length recs = 3"
    using len by (simp add: test_batch_def)
  ultimately show ?thesis using run' by blast
qed

text \<open>
  C10. With continue-on-fail off, when the requests before request \<open>k\<close> succeed and
  request \<open>k\<close> fails with \<open>err\<close>, \<open>execute\<close> throws \<open>NodeApiError err\<close>: it returns no
  records, also not those of the requests before \<open>k\<close>, and the later requests are not run.
\<close>

theorem fail_fast_discards:
  assumes "accountId c = Some acct" and "privateKey c = Some key"
    and "acct \<noteq> []" and "key \<noteq> []" and "operator_error sdk acct key = None"
    and "execute_loop sdk False (make_client (network c) acct key) acct key pre [] w = (Inr recs, w1)"
    and "process_item sdk (make_client (network c) acct key) acct key req w1 = (Inl err, w2)"
  shows "execute sdk False (Some c) (pre @ req # post) w = (Inl (NodeApiError err), w2)"
proof -
  have "execute_loop sdk False (make_client (network c) acct key) acct key (pre @ req # post) [] w
      = (Inl (NodeApiError err), w2)"
    using assms(6,7) by (simp add: execute_loop_append)
  with assms(1-5) show ?thesis by (simp add: execute_def)
qed

theorem fail_fast_discards_witness:
  "execute test_sdk False (Some test_credentials) test_batch []
     = (Inl (NodeApiError (NodeOperationError ''Unsupported resource: token'')),
        [''TransferTransaction.execute'', ''getReceipt''])"
proof -
  have c: "accountId test_credentials = Some ''0.0.1001''"
      "privateKey test_credentials = Some ''302e-operator''"
      "''0.0.1001'' \<noteq> []" "''302e-operator'' \<noteq> []"
      "operator_error test_sdk ''0.0.1001'' ''302e-operator'' = None"
    by (simp_all add: test_credentials_def test_sdk_def)
  have pre: "execute_loop test_sdk False
        (make_client (network test_credentials) ''0.0.1001'' ''302e-operator'')
        ''0.0.1001'' ''302e-operator'' [transfer_request ''0.0.2002'' (3 / 2)] [] []
      = (Inr [\<lparr>json = [(''status'', ''SUCCESS''),
                (''transactionId'', ''0.0.1001@1700000000.000000001'')]\<rparr>],
         [''TransferTransaction.execute'', ''getReceipt''])"
    by (simp add: test_client_eq test_transfer)
  have bad: "process_item test_sdk
        (make_client (network test_credentials) ''0.0.1001'' ''302e-operator'')
        ''0.0.1001'' ''302e-operator'' (default_request\<lparr>resource := ''token''\<rparr>)
        [''TransferTransaction.execute'', ''getReceipt'']
      = (Inl (NodeOperationError ''Unsupported resource: token''),
         [''TransferTransaction.execute'', ''getReceipt''])"
    by (simp add: test_client_eq test_unsupported)
  from fail_fast_discards [OF c pre bad, of "[transaction_request ''sign'' ''AQID'']"]
  show ?thesis by (simp add: test_batch_def)
qed

subsection \<open>What the transfer operation validates\<close>

lemma transfer_after_build:
  assumes "resource req = ''account''" and "accountOperation req = ''transfer''"
    and "Hbar_new (amount req) = Inr h"
  shows "process_item sdk client acct privKeyStr req w =
     (case buildTransferTransaction sdk acct (recipientId req) h of
        Inl e \<Rightarrow> (Inl e, w)
      | Inr tx \<Rightarrow>
          (case Transfer_execute sdk client tx w of
             (Inl err, w1) \<Rightarrow> (Inl err, w1)
           | (Inr txResponse, w1) \<Rightarrow>
               (case getReceipt sdk client txResponse w1 of
                  (Inl err, w2) \<Rightarrow> (Inl err, w2)
                | (Inr receipt, w2) \<Rightarrow>
                    (Inr [(''status'', receiptStatus receipt),
                          (''transactionId'', transactionId txResponse)], w2))))"
  using assms by (simp add: process_item_def account_transfer_def)

text \<open>
  C4 (as amended). Building the transfer fails before any call that reaches the network,
  with no transaction submitted, when amount construction rejects the amount or when the
  sender's or the recipient's identifier is no account identifier; the error is the SDK's.
  The operation checks neither that the amount is positive nor that sender and recipient
  differ: for an amount of at least 0 and at most 8 decimals and identifiers that are
  read, the transfer is submitted, with the entries (sender, negated amount), (recipient,
  amount) when the accounts differ and the one entry (sender, 0) when they are the same,
  and the outcome is that of the SDK.
\<close>

theorem transfer_unvalidated:
  assumes "resource req = ''account''" and "accountOperation req = ''transfer''"
  shows "(Hbar_new (amount req) = Inl e \<longrightarrow>
            process_item sdk client acct privKeyStr req w = (Inl e, w))
     \<and> (Hbar_new (amount req) = Inr h \<and> AccountId_fromString sdk acct = Inl e \<longrightarrow>
            process_item sdk client acct privKeyStr req w = (Inl e, w))
     \<and> (Hbar_new (amount req) = Inr h \<and> AccountId_fromString sdk acct = Inr a
          \<and> AccountId_fromString sdk (recipientId req) = Inl e \<longrightarrow>
            process_item sdk client acct privKeyStr req w = (Inl e, w))
     \<and> (0 \<le> m \<and> amount req = of_int m / 100000000
          \<and> AccountId_fromString sdk acct = Inr a
          \<and> AccountId_fromString sdk (recipientId req) = Inr b \<longrightarrow>
            process_item sdk client acct privKeyStr req w =
              (case Transfer_execute sdk client
                      (TransferTransaction
                         (if a = b then [(a, Hbar 0)] else [(a, Hbar (- m)), (b, Hbar m)])) w of
                 (Inl err, w1) \<Rightarrow> (Inl err, w1)
               | (Inr txResponse, w1) \<Rightarrow>
                   (case getReceipt sdk client txResponse w1 of
                      (Inl err, w2) \<Rightarrow> (Inl err, w2)
                    | (Inr receipt, w2) \<Rightarrow>
                        (Inr [(''status'', receiptStatus receipt),
                              (''transactionId'', transactionId txResponse)], w2))))"
proof (intro conjI impI)
  assume "Hbar_new (amount req) = Inl e"
  with assms show "process_item sdk client acct privKeyStr req w = (Inl e, w)"
    by (simp add: process_item_def account_transfer_def)
next
  assume "Hbar_new (amount req) = Inr h \<and> AccountId_fromString sdk acct = Inl e"
  then show "process_item sdk client acct privKeyStr req w = (Inl e, w)"
    by (simp add: transfer_after_build [OF assms] buildTransferTransaction_def
          addHbarTransfer_def)
next
  assume "Hbar_new (amount req) = Inr h \<and> AccountId_fromString sdk acct = Inr a
          \<and> AccountId_fromString sdk (recipientId req) = Inl e"
  then show "process_item sdk client acct privKeyStr req w = (Inl e, w)"
    by (simp add: transfer_after_build [OF assms] buildTransferTransaction_def
          addHbarTransfer_def)
next
  assume h: "0 \<le> m \<and> amount req = of_int m / 100000000
          \<and> AccountId_fromString sdk acct = Inr a
          \<and> AccountId_fromString sdk (recipientId req) = Inr b"
  then have "Hbar_new (amount req) = Inr (Hbar m)"
    by (simp only: Hbar_new_accepts)
  moreover have "buildTransferTransaction sdk acct (recipientId req) (Hbar m)
      = Inr (TransferTransaction
               (if a = b then [(a, Hbar 0)] else [(a, Hbar (- m)), (b, Hbar m)]))"
    using h by (simp add: buildTransferTransaction_def addHbarTransfer_def negated_def)
  ultimately show "process_item sdk client acct privKeyStr req w =
      (case Transfer_execute sdk client
              (TransferTransaction
                 (if a = b then [(a, Hbar 0)] else [(a, Hbar (- m)), (b, Hbar m)])) w of
         (Inl err, w1) \<Rightarrow> (Inl err, w1)
       | (Inr txResponse, w1) \<Rightarrow>
           (case getReceipt sdk client txResponse w1 of
              (Inl err, w2) \<Rightarrow> (Inl err, w2)
            | (Inr receipt, w2) \<Rightarrow>
                (Inr [(''status'', receiptStatus receipt),
                      (''transactionId'', transactionId txResponse)], w2)))"
    by (simp only: transfer_after_build [OF assms] sum.case)
qed

theorem transfer_unvalidated_witness:
  "process_item test_sdk test_client ''0.0.1001'' ''302e-operator''
        (transfer_request ''0.0.2002'' (1 / 1000000000)) []
      = (Inl (SdkError ''Hbar in tinybars contains decimals''), [])
   \<and> process_item test_sdk test_client ''0.0.1001'' ''302e-operator''
        (transfer_request [] (3 / 2)) []
      = (Inl (SdkError ''failed to parse entity id: ''), [])
   \<and> process_item test_sdk test_client ''0.0.1001'' ''302e-operator''
        (transfer_request ''0.0.2002'' (3 / 2)) []
      = (Inr [(''status'', ''SUCCESS''), (''transactionId'', ''0.0.1001@1700000000.000000001'')],
         [''TransferTransaction.execute'', ''getReceipt''])"
proof -
  have r: "resource (transfer_request recipient amt) = ''account''"
      "accountOperation (transfer_request recipient amt) = ''transfer''" for recipient amt
    by (simp_all add: transfer_request_def default_request_def)
  have f: "amount (transfer_request recipient amt) = amt"
      "recipientId (transfer_request recipient amt) = recipient" for recipient amt
    by (simp_all add: transfer_request_def)
  have rej: "Hbar_new (1 / 1000000000) = Inl (SdkError ''Hbar in tinybars contains decimals'')"
    using Hbar_new_rejects [of 9 1] by simp
  have acc: "Hbar_new (3 / 2) = Inr (Hbar 150000000)"
    using Hbar_new_accepts [of 150000000] by simp
  have one: "process_item test_sdk test_client ''0.0.1001'' ''302e-operator''
        (transfer_request ''0.0.2002'' (1 / 1000000000)) []
      = (Inl (SdkError ''Hbar in tinybars contains decimals''), [])"
    using transfer_unvalidated [OF r, of "''0.0.2002''" "1 / 1000000000"
      "SdkError ''Hbar in tinybars contains decimals''" test_sdk test_client "''0.0.1001''"
      "''302e-operator''" "[]" "Hbar 0" "AccountId 0 0 0" 0 "AccountId 0 0 0"] rej
    by (simp add: f)
  have two: "process_item test_sdk test_client ''0.0.1001'' ''302e-operator''
        (transfer_request [] (3 / 2)) []
      = (Inl (SdkError ''failed to parse entity id: ''), [])"
    using transfer_unvalidated [OF r, of "[]" "3 / 2"
      "SdkError ''failed to parse entity id: ''" test_sdk test_client "''0.0.1001''"
      "''302e-operator''" "[]" "Hbar 150000000" "AccountId 0 0 1001" 0 "AccountId 0 0 0"] acc
    by (simp add: f test_AccountId_fromString test_parse)
  have three: "process_item test_sdk test_client ''0.0.1001'' ''302e-operator''
        (transfer_request ''0.0.2002'' (3 / 2)) []
      = (Inr [(''status'', ''SUCCESS''), (''transactionId'', ''0.0.1001@1700000000.000000001'')],
         [''TransferTransaction.execute'', ''getReceipt''])"
    using transfer_unvalidated [OF r, of "''0.0.2002''" "3 / 2"
      "SdkError []" test_sdk test_client "''0.0.1001''"
      "''302e-operator''" "[]" "Hbar 150000000" "AccountId 0 0 1001" 150000000
      "AccountId 0 0 2002"]
    by (simp add: f test_AccountId_fromString test_parse)
       (simp add: test_sdk_def test_response_def test_receipt_def)
  from one two three show ?thesis by simp
qed

text \<open>
  With a zero amount, and with the operator as recipient, the transfer is submitted and
  the request succeeds.
\<close>

theorem transfer_validation_counterexample:
  "process_item test_sdk test_client ''0.0.1001'' ''302e-operator''
      (transfer_request ''0.0.2002'' 0) []
     = (Inr [(''status'', ''SUCCESS''), (''transactionId'', ''0.0.1001@1700000000.000000001'')],
        [''TransferTransaction.execute'', ''getReceipt''])
   \<and> process_item test_sdk test_client ''0.0.1001'' ''302e-operator''
      (transfer_request ''0.0.1001'' 1) []
     = (Inr [(''status'', ''SUCCESS''), (''transactionId'', ''0.0.1001@1700000000.000000001'')],
        [''TransferTransaction.execute'', ''getReceipt''])"
  using Hbar_new_accepts [of 0] Hbar_new_accepts [of 100000000]
  by (simp add: process_item_def transfer_request_def default_request_def
        account_transfer_def buildTransferTransaction_def addHbarTransfer_def
        test_AccountId_fromString test_parse)
     (simp add: test_sdk_def test_response_def test_receipt_def)

subsection \<open>What amount construction rejects\<close>

text \<open>
  C5 (as amended). Amount construction rejects every value with more than 8 decimals (a
  decimal \<open>m / 10\<^sup>d\<close> with \<open>d > 8\<close> and last digit not 0) and accepts every value of at
  most 8 decimals, of either sign. Account creation with such an initial balance, negative
  ones included, hands the transaction to the SDK, and its outcome is that of the SDK.
\<close>

theorem amount_construction:
  "(8 < d \<and> \<not> 10 dvd m \<longrightarrow>
      Hbar_new (of_int m / 10 ^ d) = Inl (SdkError ''Hbar in tinybars contains decimals''))
   \<and> Hbar_new (of_int m / 100000000) = Inr (Hbar m)
   \<and> (resource req = ''account'' \<and> accountOperation req = ''create''
        \<and> initialBalance req = of_int m / 100000000 \<longrightarrow>
      process_item sdk client acct privKeyStr req w =
        (case generateED25519 sdk w of (newPrivateKey, w1) \<Rightarrow>
           (case AccountCreate_execute sdk client (publicKey sdk newPrivateKey) (Hbar m) w1 of
              (Inl err, w2) \<Rightarrow> (Inl err, w2)
            | (Inr txId, w2) \<Rightarrow>
                (case getReceipt sdk client txId w2 of
                   (Inl err, w3) \<Rightarrow> (Inl err, w3)
                 | (Inr receipt, w3) \<Rightarrow>
                     (case receiptAccountId receipt of
                        None \<Rightarrow>
                          (Inl (NodeOperationError
                             (''Account creation failed: '' @ receiptStatus receipt)), w3)
                      | Some newAccountId \<Rightarrow>
                          (Inr [(''newAccountId'', newAccountId),
                                (''newAccountPublicKey'',
                                   PublicKey_toString (publicKey sdk newPrivateKey)),
                                (''newAccountPrivateKey'', PrivateKey_toString newPrivateKey)],
                           w3))))))"
proof (intro conjI impI)
  assume "8 < d \<and> \<not> 10 dvd m"
  then show "Hbar_new (of_int m / 10 ^ d) = Inl (SdkError ''Hbar in tinybars contains decimals'')"
    by (simp add: Hbar_new_rejects)
next
  show "Hbar_new (of_int m / 100000000) = Inr (Hbar m)"
    by (rule Hbar_new_accepts)
next
  assume a: "resource req = ''account'' \<and> accountOperation req = ''create''
        \<and> initialBalance req = of_int m / 100000000"
  then have "Hbar_new (initialBalance req) = Inr (Hbar m)"
    by (simp only: Hbar_new_accepts)
  with a show "process_item sdk client acct privKeyStr req w =
        (case generateED25519 sdk w of (newPrivateKey, w1) \<Rightarrow>
           (case AccountCreate_execute sdk client (publicKey sdk newPrivateKey) (Hbar m) w1 of
              (Inl err, w2) \<Rightarrow> (Inl err, w2)
            | (Inr txId, w2) \<Rightarrow>
                (case getReceipt sdk client txId w2 of
                   (Inl err, w3) \<Rightarrow> (Inl err, w3)
                 | (Inr receipt, w3) \<Rightarrow>
                     (case receiptAccountId receipt of
                        None \<Rightarrow>
                          (Inl (NodeOperationError
                             (''Account creation failed: '' @ receiptStatus receipt)), w3)
                      | Some newAccountId \<Rightarrow>
                          (Inr [(''newAccountId'', newAccountId),
                                (''newAccountPublicKey'',
                                   PublicKey_toString (publicKey sdk newPrivateKey)),
                                (''newAccountPrivateKey'', PrivateKey_toString newPrivateKey)],
                           w3)))))"
    by (simp add: process_item_def account_create_def Let_def split: prod.splits)
qed

theorem amount_construction_witness:
  "Hbar_new (123456789 / 10 ^ 9) = Inl (SdkError ''Hbar in tinybars contains decimals'')
   \<and> Hbar_new (12345678 / 100000000) = Inr (Hbar 12345678)
   \<and> process_item test_sdk test_client ''0.0.1001'' ''302e-operator''
        (create_request (12345678 / 100000000)) []
      = (Inr [(''newAccountId'', ''0.0.2002''), (''newAccountPublicKey'', ''302a-new-public''),
              (''newAccountPrivateKey'', ''302e-new-private'')],
         [''AccountCreateTransaction.execute'', ''getReceipt''])"
  using amount_construction [of 9 123456789 "create_request (12345678 / 100000000)" test_sdk
          test_client "''0.0.1001''" "''302e-operator''" "[]"]
        amount_construction [of 9 12345678 "create_request (12345678 / 100000000)" test_sdk
          test_client "''0.0.1001''" "''302e-operator''" "[]"]
  by (simp add: create_request_def default_request_def test_sdk_def test_response_def
        test_receipt_def)

text \<open>
  A negative initial balance is constructed as an amount, and the account creation with
  it reaches the ledger.
\<close>

theorem negative_balance_counterexample:
  "Hbar_new (- 1) = Inr (Hbar (- 100000000))
   \<and> process_item test_sdk test_client ''0.0.1001'' ''302e-operator'' (create_request (- 1)) []
     = (Inl (SdkError ''INVALID_INITIAL_BALANCE''), [''AccountCreateTransaction.execute''])"
  using Hbar_new_accepts [of "- 100000000"]
  by (simp add: process_item_def create_request_def default_request_def
        account_create_def test_sdk_def test_response_def test_receipt_def)

end
